theory Spec2Isabelle
  imports Main
begin

unbundle bit_operations_syntax

section \<open>The OpenTelemetry bridge of ddtrace: \<open>ddtrace/_opentelemetry/trace.py\<close>\<close>

text \<open>
  The module adapts the OpenTelemetry tracing API to the native Datadog tracer.
  \<open>TracerProvider.get_tracer\<close> hands out \<open>Tracer\<close> objects; \<open>Tracer.start_span\<close>
  looks up the active OpenTelemetry span, turns it into the parent of a new native span
  and wraps that span; \<open>Tracer.start_as_current_span\<close> does the same and then runs a
  block with the wrapper marked active.

  Python objects are modelled by what the module observes of them. Mutable objects
  (native spans) live in an explicit store and are named by their address.
\<close>

subsection \<open>Objects\<close>

type_synonym ref = nat

text \<open>
  \<open>opentelemetry.trace.span.TraceFlags\<close> is a subclass of \<open>int\<close>. The module
  compares the flags of a span context with the constant \<open>TraceFlags.SAMPLED\<close> by
  identity (\<open>is\<close>), so a flags object is either that very object, or another object
  with an integer value of its own (which may again be \<open>0x01\<close>).
\<close>

datatype trace_flags = TraceFlags_SAMPLED | TraceFlags_obj int

fun flags_value :: "trace_flags \<Rightarrow> int" where
  "flags_value TraceFlags_SAMPLED = 1"
| "flags_value (TraceFlags_obj v) = v"

text \<open>
  Modelled from the spec: the \<open>sampled\<close> flag of a span context (\<open>TraceFlags.sampled\<close>
  of the OpenTelemetry API, which is not part of the sources): the lowest bit of the
  flags.
\<close>

definition sampled :: "trace_flags \<Rightarrow> bool" where
  "sampled tf = (flags_value tf AND 1 \<noteq> 0)"

text \<open>
  \<open>TraceState\<close>: the vendor members in their order. Its truth value is that of its
  length.
\<close>

type_synonym trace_state = "(string \<times> string) list"

text \<open>
  Modelled from the spec: \<open>TraceState.to_header\<close> (OpenTelemetry API, not part of the
  sources) is the standardized serialization of the trace-state: the \<open>key=value\<close>
  members joined by commas, in order.
\<close>

fun to_header :: "trace_state \<Rightarrow> string" where
  "to_header [] = []"
| "to_header [(k, v)] = k @ ''='' @ v"
| "to_header ((k, v) # m # ms) = k @ ''='' @ v @ '','' @ to_header (m # ms)"

text \<open>
  \<open>SpanContext\<close> is a tuple
  \<open>(trace_id, span_id, is_remote, trace_flags, trace_state, is_valid)\<close>.
\<close>

record span_context =
  sc_trace_id :: int
  sc_span_id :: int
  sc_is_remote :: bool
  sc_trace_flags :: trace_flags
  sc_trace_state :: "trace_state option"
  sc_is_valid :: bool

text \<open>\<open>ddtrace.context.Context(trace_id, span_id, sampling_priority=sp, meta=meta)\<close>.\<close>

record dd_context =
  ctx_trace_id :: int
  ctx_span_id :: int
  ctx_sampling_priority :: int
  ctx_meta :: "(string \<rightharpoonup> string) option"

text \<open>
  The values of the local \<open>dd_active\<close>, of type
  \<open>Optional[Union[ddtrace.context.Context, ddtrace.Span]]\<close>: \<open>None\<close>, a native span
  (the object itself, by address) or a context.
\<close>

datatype dd_parent = PyNone | DDSpan ref | DDContext dd_context

datatype span_kind = INTERNAL | SERVER | CLIENT | PRODUCER | CONSUMER

datatype attribute_value = AttrStr string | AttrBool bool | AttrInt int

datatype exn =
    UnboundLocalError string
  | Raised string

text \<open>
  Modelled from the spec: the bridge's \<open>Span\<close> wrapper (\<open>ddtrace/_opentelemetry/span.py\<close>,
  not part of the sources) holds one reference to the native span it owns and the
  bookkeeping it was constructed with (spec, section 3).
\<close>

record span_wrapper =
  ddspan :: ref
  w_kind :: span_kind
  w_attributes :: "(string \<rightharpoonup> attribute_value) option"
  w_start_time :: "int option"
  w_record_exception :: bool
  w_set_status_on_exception :: bool

text \<open>
  Modelled from the spec: the constructor of the wrapper keeps the native span and the
  arguments it is given (spec, section 4.2, step 4).
\<close>

definition Span_init ::
  "ref \<Rightarrow> span_kind \<Rightarrow> (string \<rightharpoonup> attribute_value) option \<Rightarrow> int option \<Rightarrow> bool \<Rightarrow> bool
   \<Rightarrow> span_wrapper" where
  "Span_init dd_span kind attributes start_time record_exception set_status_on_exception =
     \<lparr>ddspan = dd_span, w_kind = kind, w_attributes = attributes, w_start_time = start_time,
      w_record_exception = record_exception,
      w_set_status_on_exception = set_status_on_exception\<rparr>"

text \<open>
  The objects a context can hold under its span key, by the tests \<open>start_span\<close> applies
  in order: the sentinel \<open>INVALID_SPAN\<close> (identity), an instance of the bridge's
  \<open>Span\<close>, another instance of the OpenTelemetry \<open>Span\<close> class (with what its
  \<open>get_span_context()\<close> returns), or any other object, which is no span (with its
  string form).
\<close>

datatype otel_span =
    INVALID_SPAN
  | BridgeSpan span_wrapper
  | ForeignSpan span_context
  | Unsupported string

text \<open>
  An OpenTelemetry \<open>Context\<close>, as far as the module reads it: the object it holds
  under the span key (\<open>INVALID_SPAN\<close> when it holds none).
\<close>

type_synonym otel_context = otel_span

subsection \<open>The state\<close>

text \<open>
  Modelled from the spec: a native span (spec, section 3): its parent, its tags for an
  exception, its error status and whether it is finished; and the tracer that made it.
\<close>

record dd_span =
  sp_name :: string
  sp_tracer :: ref
  sp_parent :: dd_parent
  sp_finished :: bool
  sp_error :: bool
  sp_exc :: "exn option"

datatype log_record = LogError string string

record world =
  current_span :: otel_span
  dd_spans :: "ref \<Rightarrow> dd_span"
  next_ref :: ref
  dd_activated :: "ref option"
  log_records :: "log_record list"

text \<open>
  The object held under the span key of the given context, or of the current context
  when none is given.
\<close>

definition context_value :: "otel_context option \<Rightarrow> world \<Rightarrow> otel_span" where
  "context_value ctx s = (case ctx of None \<Rightarrow> current_span s | Some c \<Rightarrow> c)"

text \<open>
  Modelled from the spec: \<open>get_current_span(context)\<close> of the OpenTelemetry API (not
  part of the sources) returns a span or the sentinel (spec, section 6:
  \<open>get_active_span(context?) \<rightarrow> SpanLike | INVALID\<close>): the span the context holds, and
  \<open>INVALID_SPAN\<close> when what it holds is no span.
\<close>

definition get_current_span :: "otel_context option \<Rightarrow> world \<Rightarrow> otel_span" where
  "get_current_span ctx s =
     (case context_value ctx s of
        Unsupported r \<Rightarrow> INVALID_SPAN
      | span \<Rightarrow> span)"

text \<open>
  Modelled from the spec: \<open>start_span(name, child_of, activate)\<close> of the native tracer
  (\<open>ddtrace.Tracer\<close>, not part of the sources): allocates one new native span with the
  given parent and marks it active only when asked to (spec, section 6).
\<close>

definition dd_start_span :: "ref \<Rightarrow> string \<Rightarrow> dd_parent \<Rightarrow> bool \<Rightarrow> world \<Rightarrow> ref \<times> world" where
  "dd_start_span tr name child_of activate s =
     (let r = next_ref s in
      (r, s\<lparr>dd_spans := (dd_spans s)
               (r := \<lparr>sp_name = name, sp_tracer = tr, sp_parent = child_of,
                      sp_finished = False, sp_error = False, sp_exc = None\<rparr>),
            next_ref := Suc r,
            dd_activated := (if activate then Some r else dd_activated s)\<rparr>))"

text \<open>\<open>log.error(msg, curr_otel_span)\<close>: the format and the string form of its argument.\<close>

definition log_error :: "string \<Rightarrow> string \<Rightarrow> world \<Rightarrow> world" where
  "log_error msg arg s = s\<lparr>log_records := log_records s @ [LogError msg arg]\<rparr>"

subsection \<open>\<open>TracerProvider\<close> and \<open>Tracer\<close>\<close>

text \<open>\<open>ddtrace.tracer\<close>: the global native tracer object.\<close>

definition ddtrace_tracer :: ref where
  "ddtrace_tracer = 0"

record tracer_provider =
  provider_ddtracer :: ref

record tracer =
  tracer_ddtracer :: ref

definition TracerProvider_init :: tracer_provider where
  "TracerProvider_init = \<lparr>provider_ddtracer = ddtrace_tracer\<rparr>"

definition Tracer_init :: "ref \<Rightarrow> tracer" where
  "Tracer_init datadog_tracer = \<lparr>tracer_ddtracer = datadog_tracer\<rparr>"

definition get_tracer :: "tracer_provider \<Rightarrow> string \<Rightarrow> string option \<Rightarrow> string option \<Rightarrow> tracer" where
  "get_tracer self instrumenting_module_name instrumenting_library_version schema_url =
     Tracer_init (provider_ddtracer self)"

subsection \<open>\<open>Tracer.start_span\<close>\<close>

text \<open>\<open>ddtrace.internal.constants.W3C_TRACESTATE_KEY\<close>.\<close>

definition W3C_TRACESTATE_KEY :: string where
  "W3C_TRACESTATE_KEY = ''tracestate''"

definition unsupported_span_msg :: string where
  "unsupported_span_msg =
     ''Programming Error: The current active Span is not supported by ddtrace. The following span will not '' @
     ''have a parent: %s. Please open a github issue at: https://github.com/Datadog/dd-trace-py and avoid '' @
     ''setting the ddtrace OpenTelemetry TracerProvider.''"

text \<open>The arguments of \<open>start_span\<close> after \<open>self\<close>.\<close>

record start_span_args =
  a_name :: string
  a_context :: "otel_context option"
  a_kind :: span_kind
  a_attributes :: "(string \<rightharpoonup> attribute_value) option"
  a_links :: "span_context list option"
  a_start_time :: "int option"
  a_record_exception :: bool
  a_set_status_on_exception :: bool

definition default_args :: "string \<Rightarrow> start_span_args" where
  "default_args name =
     \<lparr>a_name = name, a_context = None, a_kind = INTERNAL, a_attributes = None, a_links = None,
      a_start_time = None, a_record_exception = True, a_set_status_on_exception = True\<rparr>"

text \<open>
  Lines 90 to 93: the conversion of a foreign span's context.
  \<^verbatim>\<open>
  trace_id, span_id, _, tf, ts, _ = curr_otel_span.get_span_context()
  sp = 1 if tf is TraceFlags.SAMPLED else 0
  meta = {W3C_TRACESTATE_KEY: ts.to_header()} if ts else None
  dd_active = ddtrace.context.Context(trace_id, span_id, sampling_priority=sp, meta=meta)
  \<close>
\<close>

definition otel_to_dd_context :: "span_context \<Rightarrow> dd_context" where
  "otel_to_dd_context sc =
     (let tf = sc_trace_flags sc;
          ts = sc_trace_state sc;
          sp = (if tf = TraceFlags_SAMPLED then 1 else 0);
          meta = (case ts of
                    None \<Rightarrow> None
                  | Some t \<Rightarrow> if t \<noteq> [] then Some [W3C_TRACESTATE_KEY \<mapsto> to_header t] else None)
      in \<lparr>ctx_trace_id = sc_trace_id sc, ctx_span_id = sc_span_id sc,
          ctx_sampling_priority = sp, ctx_meta = meta\<rparr>)"

text \<open>
  Lines 80 to 110, branch by branch. The local \<open>dd_active\<close> is bound in the first
  three branches only: the last branch logs and binds nothing, so a read of \<open>dd_active\<close>
  on line 102 after it would raise \<open>UnboundLocalError\<close>. An unbound local is \<open>None\<close> of
  the option type below; the Python value \<open>None\<close> is \<open>Some PyNone\<close>. Since
  \<open>get_current_span\<close> returns a span or the sentinel, the last branch is never taken.
\<close>

definition start_span :: "tracer \<Rightarrow> start_span_args \<Rightarrow> world \<Rightarrow> (exn + span_wrapper) \<times> world" where
  "start_span self a s =
     (let curr_otel_span = get_current_span (a_context a) s;
          (dd_active, s1) =
            (case curr_otel_span of
               INVALID_SPAN \<Rightarrow> (Some PyNone, s)
             | BridgeSpan w \<Rightarrow> (Some (DDSpan (ddspan w)), s)
             | ForeignSpan sc \<Rightarrow> (Some (DDContext (otel_to_dd_context sc)), s)
             | Unsupported r \<Rightarrow> (None, log_error unsupported_span_msg r s))
      in case dd_active of
           None \<Rightarrow> (Inl (UnboundLocalError ''dd_active''), s1)
         | Some child_of \<Rightarrow>
             (let (dd_span, s2) = dd_start_span (tracer_ddtracer self) (a_name a) child_of False s1
              in (Inr (Span_init dd_span (a_kind a) (a_attributes a) (a_start_time a)
                         (a_record_exception a) (a_set_status_on_exception a)), s2)))"

subsection \<open>The wrapper's operations and the activation scope\<close>

definition update_dd_span :: "ref \<Rightarrow> (dd_span \<Rightarrow> dd_span) \<Rightarrow> world \<Rightarrow> world" where
  "update_dd_span r f s = s\<lparr>dd_spans := (dd_spans s)(r := f (dd_spans s r))\<rparr>"

text \<open>
  Modelled from the spec: \<open>Span.record_exception\<close> of the bridge's wrapper
  (\<open>ddtrace/_opentelemetry/span.py\<close>, not part of the sources) attaches the exception
  to the native span the wrapper owns, gated by the flag the wrapper was constructed
  with (spec, section 4.3).
\<close>

definition span_record_exception :: "span_wrapper \<Rightarrow> exn \<Rightarrow> world \<Rightarrow> world" where
  "span_record_exception w e s =
     (if w_record_exception w then update_dd_span (ddspan w) (\<lambda>sp. sp\<lparr>sp_exc := Some e\<rparr>) s else s)"

text \<open>
  Modelled from the spec: \<open>Span.set_status\<close> with the error status (same module, not
  part of the sources) marks the native span as an error, gated by the flag the wrapper
  was constructed with (spec, section 4.3).
\<close>

definition span_set_status_error :: "span_wrapper \<Rightarrow> world \<Rightarrow> world" where
  "span_set_status_error w s =
     (if w_set_status_on_exception w
      then update_dd_span (ddspan w) (\<lambda>sp. sp\<lparr>sp_error := True\<rparr>) s else s)"

text \<open>
  Modelled from the spec: \<open>Span.end\<close> (same module, not part of the sources) finishes
  the native span; ending an ended span changes nothing (spec, section 4.3).
\<close>

definition span_end :: "span_wrapper \<Rightarrow> world \<Rightarrow> world" where
  "span_end w s =
     (if sp_finished (dd_spans s (ddspan w)) then s
      else update_dd_span (ddspan w) (\<lambda>sp. sp\<lparr>sp_finished := True\<rparr>) s)"

text \<open>
  The block run inside a scope: it receives the yielded wrapper and the state, and
  returns the exception it raised, if any, and the state it left.
\<close>

type_synonym block = "span_wrapper \<Rightarrow> world \<Rightarrow> exn option \<times> world"

text \<open>
  Modelled from the spec: the bookkeeping of \<open>use_span\<close> on leaving the scope (spec,
  sections 4.2 and 5): on an exception, record it when \<open>record_exception\<close> and mark the
  status as error when \<open>set_status_on_exception\<close>; on every exit, end the span when
  \<open>end_on_exit\<close>.
\<close>

definition scope_exit :: "span_wrapper \<Rightarrow> bool \<Rightarrow> bool \<Rightarrow> bool \<Rightarrow> exn option \<Rightarrow> world \<Rightarrow> world" where
  "scope_exit span end_on_exit record_exception set_status_on_exception r s =
     (let s2 = (case r of
                  None \<Rightarrow> s
                | Some e \<Rightarrow>
                    (let s1 = (if record_exception then span_record_exception span e s else s)
                     in if set_status_on_exception then span_set_status_error span s1 else s1))
      in if end_on_exit then span_end span s2 else s2)"

text \<open>
  Modelled from the spec: \<open>use_span\<close> of the OpenTelemetry API (not part of the
  sources): marks the span active for the duration of the block, does the bookkeeping
  above when the block is left, restores the span that was active before in every case,
  and lets the block's exception through (spec, section 4.2).
\<close>

definition use_span :: "span_wrapper \<Rightarrow> bool \<Rightarrow> bool \<Rightarrow> bool \<Rightarrow> block \<Rightarrow> world \<Rightarrow> exn option \<times> world" where
  "use_span span end_on_exit record_exception set_status_on_exception body s =
     (let previous = current_span s;
          (r, s1) = body span (s\<lparr>current_span := BridgeSpan span\<rparr>);
          s2 = scope_exit span end_on_exit record_exception set_status_on_exception r s1
      in (r, s2\<lparr>current_span := previous\<rparr>))"

subsection \<open>\<open>Tracer.start_as_current_span\<close>\<close>

text \<open>
  Lines 112 to 145: \<open>start_span\<close> with the same arguments, then \<open>use_span\<close> around
  the caller's block. An exception of \<open>start_span\<close> leaves the function before the
  scope is entered.
\<close>

definition start_as_current_span ::
  "tracer \<Rightarrow> start_span_args \<Rightarrow> bool \<Rightarrow> block \<Rightarrow> world \<Rightarrow> exn option \<times> world" where
  "start_as_current_span self a end_on_exit body s =
     (case start_span self a s of
        (Inl e, s1) \<Rightarrow> (Some e, s1)
      | (Inr span, s1) \<Rightarrow>
          use_span span end_on_exit (a_record_exception a) (a_set_status_on_exception a) body s1)"

subsection \<open>Nested scopes\<close>

text \<open>
  Caller code that nests scopes: a \<open>with tracer.start_as_current_span(...)\<close> block
  around a list of statements, a \<open>raise\<close>, and a \<open>try\<close> block whose handler catches
  everything and does nothing. A list of statements stops at the first exception.
\<close>

datatype stmt =
    StartAsCurrentSpan start_span_args bool "stmt list"
  | Raise exn
  | TryExcept "stmt list"

fun exec_stmt :: "tracer \<Rightarrow> stmt \<Rightarrow> world \<Rightarrow> exn option \<times> world"
  and exec_block :: "tracer \<Rightarrow> stmt list \<Rightarrow> world \<Rightarrow> exn option \<times> world" where
  "exec_stmt self (StartAsCurrentSpan a end_on_exit body) s =
     start_as_current_span self a end_on_exit (\<lambda>span s'. exec_block self body s') s"
| "exec_stmt self (Raise e) s = (Some e, s)"
| "exec_stmt self (TryExcept body) s = (None, snd (exec_block self body s))"
| "exec_block self [] s = (None, s)"
| "exec_block self (x # xs) s =
     (case exec_stmt self x s of
        (None, s') \<Rightarrow> exec_block self xs s'
      | (Some e, s') \<Rightarrow> (Some e, s'))"

text \<open>
  Modelled from the spec: strict last in, first out nesting (spec, sections 4.2, 5 and
  8), read off the program text alone, to be compared with the run of \<open>exec_block\<close>.
  The span active where a scope stands is the span of the scope around it, or, for a
  scope at the top, the span that was active before the program. Every scope that is
  entered starts one native span, and native spans are numbered in the order in which
  they are started. The result lists the scopes entered, each with its native span's
  address and what stands around it, the exception the program ends with, and the next
  free address.
\<close>

datatype around = Top | Inside ref

fun scopes_stmt :: "around \<Rightarrow> stmt \<Rightarrow> ref \<Rightarrow> (ref \<times> around) list \<times> exn option \<times> ref"
  and scopes_block :: "around \<Rightarrow> stmt list \<Rightarrow> ref \<Rightarrow> (ref \<times> around) list \<times> exn option \<times> ref" where
  "scopes_stmt ar (StartAsCurrentSpan a end_on_exit body) n =
     (case scopes_block (Inside n) body (Suc n) of
        (l, r, n') \<Rightarrow> ((n, ar) # l, r, n'))"
| "scopes_stmt ar (Raise e) n = ([], Some e, n)"
| "scopes_stmt ar (TryExcept body) n =
     (case scopes_block ar body n of (l, r, n') \<Rightarrow> (l, None, n'))"
| "scopes_block ar [] n = ([], None, n)"
| "scopes_block ar (x # xs) n =
     (case scopes_stmt ar x n of
        (l, None, n') \<Rightarrow>
          (case scopes_block ar xs n' of (l', r, n'') \<Rightarrow> (l @ l', r, n''))
      | (l, Some e, n') \<Rightarrow> (l, Some e, n'))"

text \<open>
  Modelled from the spec: the parent a native span must record when it is started while
  the given object is active (spec, section 4.2, step 2; a span is identified by its
  trace id and span id, section 3): none when no span is active, the wrapper's own
  native span for a wrapper of the bridge, a context with the foreign span's ids for a
  foreign span, and none for an object that is no span.
\<close>

fun expected_parent :: "otel_span \<Rightarrow> dd_parent \<Rightarrow> bool" where
  "expected_parent INVALID_SPAN p = (p = PyNone)"
| "expected_parent (BridgeSpan w) p = (p = DDSpan (ddspan w))"
| "expected_parent (ForeignSpan sc) p =
     (case p of
        DDContext c \<Rightarrow> ctx_trace_id c = sc_trace_id sc \<and> ctx_span_id c = sc_span_id sc
      | _ \<Rightarrow> False)"
| "expected_parent (Unsupported r) p = (p = PyNone)"

text \<open>
  The parent recorded in state \<open>s\<close> for the native span of a listed scope is the span
  that was active where the scope stands: for a scope at the top, the parent expected
  for the span that was active before the program (\<open>outer\<close>); for a scope inside
  another, the native span of that scope.
\<close>

fun recorded_parent_ok :: "otel_span \<Rightarrow> world \<Rightarrow> ref \<times> around \<Rightarrow> bool" where
  "recorded_parent_ok outer s (r, Top) = expected_parent outer (sp_parent (dd_spans s r))"
| "recorded_parent_ok outer s (r, Inside p) = (sp_parent (dd_spans s r) = DDSpan p)"

text \<open>Every call in the program resolves its parent in the current context.\<close>

fun in_current_context :: "stmt \<Rightarrow> bool"
  and all_in_current_context :: "stmt list \<Rightarrow> bool" where
  "in_current_context (StartAsCurrentSpan a end_on_exit body) =
     (a_context a = None \<and> all_in_current_context body)"
| "in_current_context (Raise e) = True"
| "in_current_context (TryExcept body) = all_in_current_context body"
| "all_in_current_context [] = True"
| "all_in_current_context (x # xs) = (in_current_context x \<and> all_in_current_context xs)"

text \<open>
  Between two states no native span is lost and no recorded parent is changed: every
  address allocated in the first is allocated in the second, and holds a span with the
  same parent.
\<close>

definition parents_kept :: "world \<Rightarrow> world \<Rightarrow> bool" where
  "parents_kept s s' =
     (next_ref s \<le> next_ref s' \<and>
      (\<forall>i<next_ref s. sp_parent (dd_spans s' i) = sp_parent (dd_spans s i)))"

text \<open>
  What stands around a statement describes the span in the slot when the statement is
  run: the span that was active before the program for a statement at the top, the
  wrapper of the scope around it otherwise.
\<close>

fun describes :: "otel_span \<Rightarrow> around \<Rightarrow> otel_span \<Rightarrow> bool" where
  "describes outer Top c = (c = outer)"
| "describes outer (Inside p) c = (case c of BridgeSpan w \<Rightarrow> ddspan w = p | _ \<Rightarrow> False)"

text \<open>
  A run from \<open>s\<close> to \<open>s'\<close> agrees with a list of scopes: no recorded parent is changed,
  the native spans started by the run are those of the list, in order, and each has
  recorded the parent expected where its scope stands.
\<close>

definition run_ok :: "otel_span \<Rightarrow> world \<Rightarrow> (ref \<times> around) list \<Rightarrow> world \<Rightarrow> bool" where
  "run_ok outer s l s' =
     (parents_kept s s' \<and> map fst l = [next_ref s..<next_ref s'] \<and>
      list_all (recorded_parent_ok outer s') l)"

subsection \<open>The outcome of a call that starts a span\<close>

text \<open>
  Two abbreviations for stating results: the wrapper \<open>start_span\<close> returns when it
  reaches line 103 in state \<open>s\<close>, and the state it leaves when it starts the native
  span under \<open>child_of\<close>: one new span at the next free address, nothing else changed.
\<close>

definition wrapper_for :: "start_span_args \<Rightarrow> world \<Rightarrow> span_wrapper" where
  "wrapper_for a s =
     \<lparr>ddspan = next_ref s, w_kind = a_kind a, w_attributes = a_attributes a,
      w_start_time = a_start_time a, w_record_exception = a_record_exception a,
      w_set_status_on_exception = a_set_status_on_exception a\<rparr>"

definition new_native_span :: "tracer \<Rightarrow> start_span_args \<Rightarrow> dd_parent \<Rightarrow> world \<Rightarrow> world" where
  "new_native_span self a child_of s =
     s\<lparr>dd_spans := (dd_spans s)
          (next_ref s := \<lparr>sp_name = a_name a, sp_tracer = tracer_ddtracer self,
                          sp_parent = child_of, sp_finished = False, sp_error = False,
                          sp_exc = None\<rparr>),
       next_ref := Suc (next_ref s)\<rparr>"

subsection \<open>Concrete objects for evaluation\<close>

definition fresh_span :: dd_span where
  "fresh_span = \<lparr>sp_name = [], sp_tracer = 0, sp_parent = PyNone, sp_finished = False,
                  sp_error = False, sp_exc = None\<rparr>"

definition world0 :: world where
  "world0 = \<lparr>current_span = INVALID_SPAN, dd_spans = (\<lambda>r. fresh_span), next_ref = 0,
             dd_activated = None, log_records = []\<rparr>"

definition tracer0 :: tracer where
  "tracer0 = get_tracer TracerProvider_init ''app'' None None"

definition wrapperA :: span_wrapper where
  "wrapperA = Span_init 7 SERVER None None True True"

definition foreign_sc :: "trace_flags \<Rightarrow> trace_state option \<Rightarrow> span_context" where
  "foreign_sc tf ts =
     \<lparr>sc_trace_id = 0x1F, sc_span_id = 0x2A, sc_is_remote = True, sc_trace_flags = tf,
      sc_trace_state = ts, sc_is_valid = True\<rparr>"

definition raising_body :: block where
  "raising_body span s = (Some (Raised ''boom''), s)"

definition nested_example :: "stmt list" where
  "nested_example =
     [StartAsCurrentSpan (default_args ''A'') True
        [TryExcept [StartAsCurrentSpan (default_args ''B'') True [Raise (Raised ''boom'')]],
         StartAsCurrentSpan (default_args ''C'') True []],
      StartAsCurrentSpan (default_args ''D'') True []]"

section \<open>Properties\<close>

subsection \<open>The lookup\<close>

lemma get_current_span_span: "get_current_span ctx s \<noteq> Unsupported r"
  by (cases "context_value ctx s") (simp_all add: get_current_span_def)

lemma get_current_span_slot_update:
  "get_current_span (Some c) (s\<lparr>current_span := x\<rparr>) = get_current_span (Some c) s"
  by (simp add: get_current_span_def context_value_def)

lemma world_current_span_id: "(s::world)\<lparr>current_span := current_span s\<rparr> = s"
  by simp

subsection \<open>The cases of \<open>start_span\<close>\<close>

lemma start_span_invalid:
  "get_current_span (a_context a) s = INVALID_SPAN \<Longrightarrow>
   start_span self a s = (Inr (wrapper_for a s), new_native_span self a PyNone s)"
  by (simp add: start_span_def dd_start_span_def Span_init_def wrapper_for_def
      new_native_span_def Let_def)

lemma start_span_bridge:
  "get_current_span (a_context a) s = BridgeSpan w \<Longrightarrow>
   start_span self a s = (Inr (wrapper_for a s), new_native_span self a (DDSpan (ddspan w)) s)"
  by (simp add: start_span_def dd_start_span_def Span_init_def wrapper_for_def
      new_native_span_def Let_def)

lemma start_span_foreign:
  "get_current_span (a_context a) s = ForeignSpan sc \<Longrightarrow>
   start_span self a s =
     (Inr (wrapper_for a s), new_native_span self a (DDContext (otel_to_dd_context sc)) s)"
  by (simp add: start_span_def dd_start_span_def Span_init_def wrapper_for_def
      new_native_span_def Let_def)

lemma new_native_span_parent:
  "sp_parent (dd_spans (new_native_span self a p s) (ddspan (wrapper_for a s))) = p"
  by (simp add: new_native_span_def wrapper_for_def)

lemma start_span_current_span:
  "current_span (snd (start_span self a s)) = current_span s"
  by (cases "get_current_span (a_context a) s")
     (simp_all add: start_span_invalid start_span_bridge start_span_foreign
        get_current_span_span new_native_span_def)

lemma start_span_explicit_context:
  "start_span self (a\<lparr>a_context := Some c\<rparr>) (s\<lparr>current_span := x\<rparr>) =
     (case start_span self (a\<lparr>a_context := Some c\<rparr>) s of (r, t) \<Rightarrow> (r, t\<lparr>current_span := x\<rparr>))"
proof (cases "get_current_span (Some c) s")
  case INVALID_SPAN
  then show ?thesis
    by (simp add: start_span_invalid get_current_span_slot_update new_native_span_def
        wrapper_for_def)
next
  case (BridgeSpan w)
  then show ?thesis
    by (simp add: start_span_bridge get_current_span_slot_update new_native_span_def
        wrapper_for_def)
next
  case (ForeignSpan sc)
  then show ?thesis
    by (simp add: start_span_foreign get_current_span_slot_update new_native_span_def
        wrapper_for_def)
next
  case (Unsupported r)
  then show ?thesis by (simp add: get_current_span_span)
qed

lemma scope_exit_current_span:
  "current_span (scope_exit span e rx st r s) = current_span s"
  by (cases r)
     (simp_all add: scope_exit_def span_end_def span_record_exception_def
        span_set_status_error_def update_dd_span_def Let_def)

lemma start_span_wrapper:
  assumes "start_span self a s = (Inr span, s1)"
  shows "span = wrapper_for a s" and "current_span s1 = current_span s"
proof -
  show "span = wrapper_for a s"
    using assms
    by (cases "get_current_span (a_context a) s")
       (simp_all add: start_span_invalid start_span_bridge start_span_foreign
          get_current_span_span)
  show "current_span s1 = current_span s"
    using assms start_span_current_span [of self a s] by simp
qed

lemma scope_exit_raised:
  "(rx \<longrightarrow> w_record_exception span) \<Longrightarrow> (st \<longrightarrow> w_set_status_on_exception span) \<Longrightarrow>
   (rx \<longrightarrow> sp_exc (dd_spans (scope_exit span e rx st (Some x) s) (ddspan span)) = Some x) \<and>
   (st \<longrightarrow> sp_error (dd_spans (scope_exit span e rx st (Some x) s) (ddspan span))) \<and>
   (e \<longrightarrow> sp_finished (dd_spans (scope_exit span e rx st (Some x) s) (ddspan span)))"
  by (simp add: scope_exit_def span_end_def span_record_exception_def
      span_set_status_error_def update_dd_span_def Let_def)

subsection \<open>Every call starts one native span\<close>

text \<open>
  C8. Every call of \<open>start_span\<close> returns a wrapper of the new native span holding the
  \<open>kind\<close>, \<open>attributes\<close>, \<open>start_time\<close>, \<open>record_exception\<close> and
  \<open>set_status_on_exception\<close> it was given, and changes the state in one way only: one
  native span is added at the next free address by the tracer's native tracer, with the
  parent of the case the active span falls in. Neither the native tracer's active span
  nor the OpenTelemetry active span changes.
\<close>

theorem start_span_one_native_span:
  "start_span self a s =
     (Inr (Span_init (next_ref s) (a_kind a) (a_attributes a) (a_start_time a)
             (a_record_exception a) (a_set_status_on_exception a)),
      s\<lparr>dd_spans := (dd_spans s)
           (next_ref s :=
              \<lparr>sp_name = a_name a, sp_tracer = tracer_ddtracer self,
               sp_parent =
                 (case get_current_span (a_context a) s of
                    INVALID_SPAN \<Rightarrow> PyNone
                  | BridgeSpan w \<Rightarrow> DDSpan (ddspan w)
                  | ForeignSpan sc \<Rightarrow> DDContext (otel_to_dd_context sc)
                  | Unsupported r \<Rightarrow> PyNone),
               sp_finished = False, sp_error = False, sp_exc = None\<rparr>),
         next_ref := Suc (next_ref s)\<rparr>)"
  by (cases "get_current_span (a_context a) s")
     (simp_all add: start_span_invalid start_span_bridge start_span_foreign wrapper_for_def
        new_native_span_def Span_init_def get_current_span_span)

theorem start_span_one_native_span_witness:
  "start_span tracer0 ((default_args ''child'')\<lparr>a_kind := CLIENT\<rparr>)
     (world0\<lparr>current_span := BridgeSpan wrapperA, next_ref := 8\<rparr>) =
     (Inr (Span_init 8 CLIENT None None True True),
      world0\<lparr>current_span := BridgeSpan wrapperA,
             dd_spans := (dd_spans world0)
               (8 := \<lparr>sp_name = ''child'', sp_tracer = ddtrace_tracer, sp_parent = DDSpan 7,
                       sp_finished = False, sp_error = False, sp_exc = None\<rparr>),
             next_ref := 9\<rparr>)"
proof -
  let ?a = "(default_args ''child'')\<lparr>a_kind := CLIENT\<rparr>"
  let ?s = "world0\<lparr>current_span := BridgeSpan wrapperA, next_ref := 8\<rparr>"
  have h: "get_current_span (a_context ?a) ?s = BridgeSpan wrapperA"
    by (simp add: get_current_span_def context_value_def default_args_def)
  have d: "ddspan wrapperA = 7" "tracer_ddtracer tracer0 = ddtrace_tracer"
    by (simp_all add: wrapperA_def Span_init_def tracer0_def get_tracer_def Tracer_init_def
        TracerProvider_init_def)
  show ?thesis
    using h d start_span_one_native_span [of tracer0 ?a ?s]
    by (simp add: default_args_def world0_def)
qed

text \<open>
  A call that passes a context resolves its parent in that context: the span held by
  the current context has no influence on the result and is left as it is.
\<close>

theorem start_span_explicit_context_decides:
  "fst (start_span self (a\<lparr>a_context := Some c\<rparr>) (s\<lparr>current_span := x\<rparr>)) =
     fst (start_span self (a\<lparr>a_context := Some c\<rparr>) s) \<and>
   snd (start_span self (a\<lparr>a_context := Some c\<rparr>) (s\<lparr>current_span := x\<rparr>)) =
     (snd (start_span self (a\<lparr>a_context := Some c\<rparr>) s))\<lparr>current_span := x\<rparr>"
  by (simp add: start_span_explicit_context split: prod.splits)

subsection \<open>An object that is no span\<close>




subsection \<open>No active span, and an active span of the bridge\<close>

text \<open>
  C7. When the active-span lookup yields the sentinel \<open>INVALID_SPAN\<close>, \<open>start_span\<close>
  returns a wrapper whose native span has no parent.
\<close>

theorem start_span_no_active_span_is_root:
  assumes "get_current_span (a_context a) s = INVALID_SPAN"
  shows "\<exists>span s'. start_span self a s = (Inr span, s') \<and>
           sp_parent (dd_spans s' (ddspan span)) = PyNone"
  using assms by (simp add: start_span_invalid new_native_span_parent)

theorem start_span_no_active_span_is_root_witness:
  "get_current_span (a_context (default_args ''root'')) world0 = INVALID_SPAN \<and>
   (\<exists>span s'. start_span tracer0 (default_args ''root'') world0 = (Inr span, s') \<and>
      sp_parent (dd_spans s' (ddspan span)) = PyNone)"
proof -
  have h: "get_current_span (a_context (default_args ''root'')) world0 = INVALID_SPAN"
    by (simp add: get_current_span_def context_value_def default_args_def world0_def)
  show ?thesis
    using h start_span_no_active_span_is_root [OF h, of tracer0] by simp
qed

text \<open>
  C5. When the active span is a wrapper \<open>A\<close> of this bridge, \<open>start_span\<close> returns a
  wrapper whose native span has as its parent the very native span \<open>A\<close> owns (its
  address), and not a context made from ids.
\<close>

theorem start_span_bridge_parent_is_native_span:
  assumes "get_current_span (a_context a) s = BridgeSpan A"
  shows "\<exists>span s'. start_span self a s = (Inr span, s') \<and>
           sp_parent (dd_spans s' (ddspan span)) = DDSpan (ddspan A) \<and>
           (\<forall>c. sp_parent (dd_spans s' (ddspan span)) \<noteq> DDContext c)"
  using assms by (simp add: start_span_bridge new_native_span_parent)

theorem start_span_bridge_parent_is_native_span_witness:
  "get_current_span (a_context (default_args ''B'')) (world0\<lparr>current_span := BridgeSpan wrapperA, next_ref := 8\<rparr>)
     = BridgeSpan wrapperA \<and>
   (\<exists>span s'. start_span tracer0 (default_args ''B'')
        (world0\<lparr>current_span := BridgeSpan wrapperA, next_ref := 8\<rparr>) = (Inr span, s') \<and>
      sp_parent (dd_spans s' (ddspan span)) = DDSpan 7 \<and>
      (\<forall>c. sp_parent (dd_spans s' (ddspan span)) \<noteq> DDContext c))"
proof -
  let ?s = "world0\<lparr>current_span := BridgeSpan wrapperA, next_ref := 8\<rparr>"
  have h: "get_current_span (a_context (default_args ''B'')) ?s = BridgeSpan wrapperA"
    by (simp add: get_current_span_def context_value_def default_args_def)
  have d: "ddspan wrapperA = 7"
    by (simp add: wrapperA_def Span_init_def)
  show ?thesis
    using h d start_span_bridge_parent_is_native_span [OF h, of tracer0] by simp
qed

subsection \<open>A foreign active span\<close>

text \<open>
  C10. When the active span is a foreign span, the parent of the new native span is a
  context with the foreign trace and span ids. Its sampling priority is 1 exactly when
  the flags object is the constant \<open>TraceFlags.SAMPLED\<close> itself and 0 for every other
  flags object, whatever its value. Its metadata holds the trace-state header under the
  key \<open>W3C_TRACESTATE_KEY\<close> exactly when the trace-state is present and not empty, and
  is \<open>None\<close> otherwise.
\<close>

theorem foreign_conversion_by_identity:
  assumes "get_current_span (a_context a) s = ForeignSpan sc"
  shows "\<exists>span s' c. start_span self a s = (Inr span, s') \<and>
           sp_parent (dd_spans s' (ddspan span)) = DDContext c \<and>
           ctx_trace_id c = sc_trace_id sc \<and> ctx_span_id c = sc_span_id sc \<and>
           ctx_sampling_priority c = (if sc_trace_flags sc = TraceFlags_SAMPLED then 1 else 0) \<and>
           (ctx_sampling_priority c = 0) = (\<exists>v. sc_trace_flags sc = TraceFlags_obj v) \<and>
           ctx_meta c =
             (case sc_trace_state sc of
                None \<Rightarrow> None
              | Some t \<Rightarrow> if t = [] then None else Some [W3C_TRACESTATE_KEY \<mapsto> to_header t]) \<and>
           (ctx_meta c \<noteq> None) = (\<exists>t. sc_trace_state sc = Some t \<and> t \<noteq> [])"
  using assms
  by (cases "sc_trace_flags sc")
     (auto simp add: start_span_foreign new_native_span_parent otel_to_dd_context_def Let_def
        split: option.splits)

theorem foreign_conversion_by_identity_witness:
  "get_current_span (a_context (default_args ''child''))
     (world0\<lparr>current_span := ForeignSpan (foreign_sc (TraceFlags_obj 3) (Some []))\<rparr>) =
     ForeignSpan (foreign_sc (TraceFlags_obj 3) (Some [])) \<and>
   (\<exists>span s' c.
      start_span tracer0 (default_args ''child'')
        (world0\<lparr>current_span := ForeignSpan (foreign_sc (TraceFlags_obj 3) (Some []))\<rparr>) =
        (Inr span, s') \<and>
      sp_parent (dd_spans s' (ddspan span)) = DDContext c \<and>
      ctx_sampling_priority c = 0 \<and> ctx_meta c = None)"
proof -
  let ?sc = "foreign_sc (TraceFlags_obj 3) (Some [])"
  let ?s = "world0\<lparr>current_span := ForeignSpan ?sc\<rparr>"
  have h: "get_current_span (a_context (default_args ''child'')) ?s = ForeignSpan ?sc"
    by (simp add: get_current_span_def context_value_def default_args_def)
  have f: "sc_trace_flags ?sc = TraceFlags_obj 3" "sc_trace_state ?sc = Some []"
    by (simp_all add: foreign_sc_def)
  from foreign_conversion_by_identity [OF h, of tracer0]
  obtain span s' c where
    "start_span tracer0 (default_args ''child'') ?s = (Inr span, s')"
    "sp_parent (dd_spans s' (ddspan span)) = DDContext c"
    "ctx_sampling_priority c = (if sc_trace_flags ?sc = TraceFlags_SAMPLED then 1 else 0)"
    "ctx_meta c =
       (case sc_trace_state ?sc of
          None \<Rightarrow> None
        | Some t \<Rightarrow> if t = [] then None else Some [W3C_TRACESTATE_KEY \<mapsto> to_header t])"
    by blast
  with f have "start_span tracer0 (default_args ''child'') ?s = (Inr span, s') \<and>
      sp_parent (dd_spans s' (ddspan span)) = DDContext c \<and>
      ctx_sampling_priority c = 0 \<and> ctx_meta c = None"
    by simp
  with h show ?thesis by blast
qed

text \<open>
  C3 (the code departs from the claim). The claim: the sampling priority of the parent
  context is 1 when the foreign span is sampled. The flags \<open>0x03\<close> have the sampled bit
  set, but they are not the object \<open>TraceFlags.SAMPLED\<close>, and the identity test of
  line 91 gives priority 0.
\<close>

theorem sampled_foreign_span_gets_priority_0:
  "sampled (TraceFlags_obj 3) \<and>
   (case start_span tracer0 (default_args ''child'')
           (world0\<lparr>current_span := ForeignSpan (foreign_sc (TraceFlags_obj 3) None)\<rparr>) of
      (r, s') \<Rightarrow>
        r = Inr (Span_init 0 INTERNAL None None True True) \<and>
        sp_parent (dd_spans s' 0) =
          DDContext \<lparr>ctx_trace_id = 0x1F, ctx_span_id = 0x2A, ctx_sampling_priority = 0,
                     ctx_meta = None\<rparr>)"
  by (simp add: sampled_def start_span_foreign get_current_span_def context_value_def default_args_def
      new_native_span_def wrapper_for_def Span_init_def otel_to_dd_context_def foreign_sc_def
      world0_def)

text \<open>
  C6 (the code departs from the claim). The claim: a sampled foreign span with the
  trace-state \<open>vendor=value\<close> gives a parent context with sampling priority 1 and the
  header \<open>vendor=value\<close> as its trace-state metadata. With the sampled flags \<open>0x03\<close>
  the header is carried over exactly, but the priority is 0. This is the defect of C3.
\<close>

theorem sampled_vendor_tracestate_gets_priority_0:
  "sampled (TraceFlags_obj 3) \<and>
   to_header [(''vendor'', ''value'')] = ''vendor=value'' \<and>
   (case start_span tracer0 (default_args ''child'')
           (world0\<lparr>current_span :=
              ForeignSpan (foreign_sc (TraceFlags_obj 3) (Some [(''vendor'', ''value'')]))\<rparr>) of
      (r, s') \<Rightarrow>
        sp_parent (dd_spans s' 0) =
          DDContext \<lparr>ctx_trace_id = 0x1F, ctx_span_id = 0x2A, ctx_sampling_priority = 0,
                     ctx_meta = Some [W3C_TRACESTATE_KEY \<mapsto> ''vendor=value'']\<rparr>)"
  by (simp add: sampled_def start_span_foreign get_current_span_def context_value_def default_args_def
      new_native_span_def wrapper_for_def Span_init_def otel_to_dd_context_def foreign_sc_def
      world0_def)

subsection \<open>The provider\<close>

text \<open>
  C9. \<open>get_tracer\<close> does not depend on the instrumenting module's name, the library
  version or the schema url: the tracers returned for any two choices of them are equal,
  hold the provider's native tracer, and \<open>start_span\<close> and \<open>start_as_current_span\<close>
  give the same results on them.
\<close>

theorem get_tracer_ignores_names:
  "get_tracer p n1 v1 u1 = get_tracer p n2 v2 u2 \<and>
   tracer_ddtracer (get_tracer p n1 v1 u1) = provider_ddtracer p \<and>
   start_span (get_tracer p n1 v1 u1) a s = start_span (get_tracer p n2 v2 u2) a s \<and>
   start_as_current_span (get_tracer p n1 v1 u1) a e body s =
     start_as_current_span (get_tracer p n2 v2 u2) a e body s"
  by (simp add: get_tracer_def Tracer_init_def)

subsection \<open>Scopes\<close>

text \<open>
  C4. When \<open>start_span\<close> returns a wrapper and the block run under
  \<open>start_as_current_span\<close> raises \<open>x\<close>, the call raises the same \<open>x\<close>, and in the state
  it leaves: the exception is recorded on the native span when \<open>record_exception\<close>, its
  status is error when \<open>set_status_on_exception\<close>, it is finished when \<open>end_on_exit\<close>,
  and the active span is the one from before the call.
\<close>

theorem exception_in_scope_propagates:
  assumes "start_span self a s = (Inr span, s1)"
    and "body span (s1\<lparr>current_span := BridgeSpan span\<rparr>) = (Some x, s2)"
  shows "\<exists>s'. start_as_current_span self a end_on_exit body s = (Some x, s') \<and>
           (a_record_exception a \<longrightarrow> sp_exc (dd_spans s' (ddspan span)) = Some x) \<and>
           (a_set_status_on_exception a \<longrightarrow> sp_error (dd_spans s' (ddspan span))) \<and>
           (end_on_exit \<longrightarrow> sp_finished (dd_spans s' (ddspan span))) \<and>
           current_span s' = current_span s"
proof -
  let ?out = "scope_exit span end_on_exit (a_record_exception a) (a_set_status_on_exception a)
                (Some x) s2"
  have span: "span = wrapper_for a s" and c1: "current_span s1 = current_span s"
    using start_span_wrapper [OF assms(1)] by simp_all
  have run: "start_as_current_span self a end_on_exit body s =
               (Some x, ?out\<lparr>current_span := current_span s\<rparr>)"
    using assms c1 by (simp add: start_as_current_span_def use_span_def)
  have flags: "a_record_exception a \<longrightarrow> w_record_exception span"
    "a_set_status_on_exception a \<longrightarrow> w_set_status_on_exception span"
    using span by (simp_all add: wrapper_for_def)
  have "(a_record_exception a \<longrightarrow> sp_exc (dd_spans ?out (ddspan span)) = Some x) \<and>
        (a_set_status_on_exception a \<longrightarrow> sp_error (dd_spans ?out (ddspan span))) \<and>
        (end_on_exit \<longrightarrow> sp_finished (dd_spans ?out (ddspan span)))"
    using flags by (rule scope_exit_raised)
  with run show ?thesis by simp
qed

theorem exception_in_scope_propagates_witness:
  "start_span tracer0 (default_args ''work'') world0 =
     (Inr (Span_init 0 INTERNAL None None True True),
      new_native_span tracer0 (default_args ''work'') PyNone world0) \<and>
   raising_body (Span_init 0 INTERNAL None None True True)
     ((new_native_span tracer0 (default_args ''work'') PyNone world0)
        \<lparr>current_span := BridgeSpan (Span_init 0 INTERNAL None None True True)\<rparr>) =
     (Some (Raised ''boom''),
      (new_native_span tracer0 (default_args ''work'') PyNone world0)
        \<lparr>current_span := BridgeSpan (Span_init 0 INTERNAL None None True True)\<rparr>) \<and>
   (\<exists>s'. start_as_current_span tracer0 (default_args ''work'') True raising_body world0 =
            (Some (Raised ''boom''), s') \<and>
          sp_exc (dd_spans s' 0) = Some (Raised ''boom'') \<and> sp_error (dd_spans s' 0) \<and>
          sp_finished (dd_spans s' 0) \<and> current_span s' = INVALID_SPAN)"
proof -
  let ?a = "default_args ''work''"
  let ?w = "Span_init 0 INTERNAL None None True True"
  let ?s1 = "new_native_span tracer0 ?a PyNone world0"
  have h1: "start_span tracer0 ?a world0 = (Inr ?w, ?s1)"
    by (simp add: start_span_invalid get_current_span_def context_value_def default_args_def world0_def
        wrapper_for_def Span_init_def)
  have h2: "raising_body ?w (?s1\<lparr>current_span := BridgeSpan ?w\<rparr>) =
              (Some (Raised ''boom''), ?s1\<lparr>current_span := BridgeSpan ?w\<rparr>)"
    by (simp add: raising_body_def)
  have d: "ddspan ?w = 0" "a_record_exception ?a" "a_set_status_on_exception ?a"
    "current_span world0 = INVALID_SPAN"
    by (simp_all add: Span_init_def default_args_def world0_def)
  show ?thesis
    using h1 h2 d
      exception_in_scope_propagates [where body = raising_body and end_on_exit = True, OF h1 h2]
    by simp
qed

subsection \<open>Recorded parents are kept\<close>

lemma parents_kept_refl: "parents_kept s s"
  by (simp add: parents_kept_def)

lemma parents_kept_trans: "parents_kept s t \<Longrightarrow> parents_kept t u \<Longrightarrow> parents_kept s u"
  by (auto simp add: parents_kept_def)

lemma parents_kept_current_span:
  "parents_kept (s\<lparr>current_span := c\<rparr>) t = parents_kept s t"
  "parents_kept s (t\<lparr>current_span := c\<rparr>) = parents_kept s t"
  by (simp_all add: parents_kept_def)

lemma scope_exit_parents_kept: "parents_kept s (scope_exit span e rx st r s)"
  by (cases r)
     (simp_all add: scope_exit_def span_end_def span_record_exception_def
        span_set_status_error_def update_dd_span_def parents_kept_def Let_def)

lemma scope_exit_next_ref: "next_ref (scope_exit span e rx st r s) = next_ref s"
  by (cases r)
     (simp_all add: scope_exit_def span_end_def span_record_exception_def
        span_set_status_error_def update_dd_span_def Let_def)

lemma recorded_parent_ok_kept:
  "parents_kept s t \<Longrightarrow> a < next_ref s \<Longrightarrow> recorded_parent_ok outer s (a, ar) \<Longrightarrow>
   recorded_parent_ok outer t (a, ar)"
  by (cases ar) (simp_all add: parents_kept_def)

lemma recorded_parent_ok_current_span:
  "recorded_parent_ok outer (s\<lparr>current_span := c\<rparr>) x = recorded_parent_ok outer s x"
  by (cases x, cases "snd x") simp_all

lemma recorded_parent_ok_list_kept:
  assumes "list_all (recorded_parent_ok outer t) l" and "parents_kept t u"
    and "\<forall>a\<in>set (map fst l). a < next_ref t"
  shows "list_all (recorded_parent_ok outer u) l"
  unfolding list_all_iff
proof
  fix x
  assume x: "x \<in> set l"
  obtain a ar where p: "x = (a, ar)"
    by (cases x)
  from x p assms(3) have "a < next_ref t"
    by force
  moreover from x p assms(1) have "recorded_parent_ok outer t (a, ar)"
    by (simp add: list_all_iff)
  ultimately show "recorded_parent_ok outer u x"
    unfolding p using assms(2) by (rule recorded_parent_ok_kept [rotated])
qed

lemma upt_split: "(i::nat) \<le> j \<Longrightarrow> j \<le> k \<Longrightarrow> [i..<k] = [i..<j] @ [j..<k]"
  using upt_add_eq_append [of i j "k - j"] by simp

lemma run_ok_trans:
  assumes "run_ok outer s l1 t" and "run_ok outer t l2 u"
  shows "run_ok outer s (l1 @ l2) u"
proof -
  from assms have st: "parents_kept s t" and tu: "parents_kept t u"
    and m1: "map fst l1 = [next_ref s..<next_ref t]"
    and m2: "map fst l2 = [next_ref t..<next_ref u]"
    and ok1: "list_all (recorded_parent_ok outer t) l1"
    and ok2: "list_all (recorded_parent_ok outer u) l2"
    by (simp_all add: run_ok_def)
  from st tu have le: "next_ref s \<le> next_ref t" "next_ref t \<le> next_ref u"
    by (simp_all add: parents_kept_def)
  have k: "parents_kept s u"
    using st tu by (rule parents_kept_trans)
  have m: "map fst (l1 @ l2) = [next_ref s..<next_ref u]"
    unfolding map_append m1 m2 using le by (rule upt_split [symmetric])
  have "\<forall>a\<in>set (map fst l1). a < next_ref t"
    unfolding m1 by simp
  with ok1 tu have ok1': "list_all (recorded_parent_ok outer u) l1"
    by (rule recorded_parent_ok_list_kept)
  show ?thesis
    unfolding run_ok_def using k m ok1' ok2 by simp
qed

lemma start_span_expected:
  assumes "a_context a = None" and "describes outer ar (current_span s)"
  shows "\<exists>p. start_span self a s = (Inr (wrapper_for a s), new_native_span self a p s) \<and>
             recorded_parent_ok outer (new_native_span self a p s) (next_ref s, ar)"
proof (cases ar)
  case Top
  with assms have c: "current_span s = outer" by simp
  show ?thesis
  proof (cases outer)
    case INVALID_SPAN
    with c assms(1) have "get_current_span (a_context a) s = INVALID_SPAN"
      by (simp add: get_current_span_def context_value_def)
    then have "start_span self a s = (Inr (wrapper_for a s), new_native_span self a PyNone s)"
      by (rule start_span_invalid)
    moreover have "recorded_parent_ok outer (new_native_span self a PyNone s) (next_ref s, ar)"
      using Top INVALID_SPAN by (simp add: new_native_span_def)
    ultimately show ?thesis by blast
  next
    case (BridgeSpan w)
    with c assms(1) have "get_current_span (a_context a) s = BridgeSpan w"
      by (simp add: get_current_span_def context_value_def)
    then have "start_span self a s =
                 (Inr (wrapper_for a s), new_native_span self a (DDSpan (ddspan w)) s)"
      by (rule start_span_bridge)
    moreover have "recorded_parent_ok outer (new_native_span self a (DDSpan (ddspan w)) s)
                     (next_ref s, ar)"
      using Top BridgeSpan by (simp add: new_native_span_def)
    ultimately show ?thesis by blast
  next
    case (ForeignSpan sc)
    with c assms(1) have "get_current_span (a_context a) s = ForeignSpan sc"
      by (simp add: get_current_span_def context_value_def)
    then have "start_span self a s =
                 (Inr (wrapper_for a s),
                  new_native_span self a (DDContext (otel_to_dd_context sc)) s)"
      by (rule start_span_foreign)
    moreover have "recorded_parent_ok outer
                     (new_native_span self a (DDContext (otel_to_dd_context sc)) s)
                     (next_ref s, ar)"
      using Top ForeignSpan by (simp add: new_native_span_def otel_to_dd_context_def Let_def)
    ultimately show ?thesis by blast
  next
    case (Unsupported r)
    with c assms(1) have "get_current_span (a_context a) s = INVALID_SPAN"
      by (simp add: get_current_span_def context_value_def)
    then have "start_span self a s = (Inr (wrapper_for a s), new_native_span self a PyNone s)"
      by (rule start_span_invalid)
    moreover have "recorded_parent_ok outer (new_native_span self a PyNone s) (next_ref s, ar)"
      using Top Unsupported by (simp add: new_native_span_def)
    ultimately show ?thesis by blast
  qed
next
  case (Inside q)
  with assms obtain w where c: "current_span s = BridgeSpan w" and w: "ddspan w = q"
    by (cases "current_span s") simp_all
  with assms(1) have "get_current_span (a_context a) s = BridgeSpan w"
    by (simp add: get_current_span_def context_value_def)
  then have "start_span self a s =
               (Inr (wrapper_for a s), new_native_span self a (DDSpan (ddspan w)) s)"
    by (rule start_span_bridge)
  moreover have "recorded_parent_ok outer (new_native_span self a (DDSpan (ddspan w)) s)
                   (next_ref s, ar)"
    using Inside w by (simp add: new_native_span_def)
  ultimately show ?thesis by blast
qed

lemma exec_stmt_scopes:
  "in_current_context x \<Longrightarrow> describes outer ar (current_span s) \<Longrightarrow>
   \<exists>l. scopes_stmt ar x (next_ref s) =
         (l, fst (exec_stmt self x s), next_ref (snd (exec_stmt self x s))) \<and>
       run_ok outer s l (snd (exec_stmt self x s)) \<and>
       current_span (snd (exec_stmt self x s)) = current_span s"
  and exec_block_scopes:
  "all_in_current_context xs \<Longrightarrow> describes outer ar (current_span s) \<Longrightarrow>
   \<exists>l. scopes_block ar xs (next_ref s) =
         (l, fst (exec_block self xs s), next_ref (snd (exec_block self xs s))) \<and>
       run_ok outer s l (snd (exec_block self xs s)) \<and>
       current_span (snd (exec_block self xs s)) = current_span s"
proof (induction self x s and self xs s arbitrary: ar and ar rule: exec_stmt_exec_block.induct)
  case (1 self a end_on_exit body s)
  from "1.prems" have ctx: "a_context a = None" and body: "all_in_current_context body"
    by simp_all
  let ?n = "next_ref s"
  let ?w = "wrapper_for a s"
  from start_span_expected [OF ctx "1.prems"(2), of self]
  obtain p where start: "start_span self a s = (Inr ?w, new_native_span self a p s)"
    and ok: "recorded_parent_ok outer (new_native_span self a p s) (?n, ar)"
    by blast
  let ?s1 = "new_native_span self a p s"
  let ?inner = "?s1\<lparr>current_span := BridgeSpan ?w\<rparr>"
  have n1: "next_ref ?inner = Suc ?n" and c1: "current_span ?s1 = current_span s"
    by (simp_all add: new_native_span_def)
  have d: "describes outer (Inside ?n) (current_span ?inner)"
    by (simp add: wrapper_for_def)
  let ?r = "fst (exec_block self body ?inner)"
  let ?s2 = "snd (exec_block self body ?inner)"
  from "1.IH" [OF body d]
  obtain l where sc: "scopes_block (Inside ?n) body (Suc ?n) = (l, ?r, next_ref ?s2)"
    and run: "run_ok outer ?inner l ?s2"
    using n1 by auto
  let ?out = "scope_exit ?w end_on_exit (a_record_exception a) (a_set_status_on_exception a) ?r ?s2"
  let ?s' = "?out\<lparr>current_span := current_span ?s1\<rparr>"
  have res: "exec_stmt self (StartAsCurrentSpan a end_on_exit body) s = (?r, ?s')"
    using start
    by (simp add: start_as_current_span_def use_span_def split: prod.splits)
  have first: "run_ok outer s [(?n, ar)] ?inner"
    using ok
    by (simp add: run_ok_def parents_kept_current_span recorded_parent_ok_current_span)
       (simp add: parents_kept_def new_native_span_def)
  have last: "run_ok outer ?s2 [] ?s'"
    by (simp add: run_ok_def parents_kept_current_span scope_exit_parents_kept
        scope_exit_next_ref)
  have "run_ok outer s ([(?n, ar)] @ l @ []) ?s'"
    by (rule run_ok_trans [OF first run_ok_trans [OF run last]])
  then have all: "run_ok outer s ((?n, ar) # l) ?s'"
    by simp
  have "next_ref ?s' = next_ref ?s2"
    by (simp add: scope_exit_next_ref)
  with sc have "scopes_stmt ar (StartAsCurrentSpan a end_on_exit body) ?n =
                  ((?n, ar) # l, ?r, next_ref ?s')"
    by simp
  with res all c1 show ?case
    by simp
next
  case (2 self e s)
  then show ?case
    by (simp add: run_ok_def parents_kept_refl)
next
  case (3 self body s)
  from "3.prems" have body: "all_in_current_context body"
    by simp
  from "3.IH" [OF body "3.prems"(2)] show ?case
    by auto
next
  case (4 self s)
  then show ?case
    by (simp add: run_ok_def parents_kept_refl)
next
  case (5 self x xs s)
  from "5.prems" have x: "in_current_context x" and xs: "all_in_current_context xs"
    by simp_all
  obtain r1 s1 where ex: "exec_stmt self x s = (r1, s1)"
    by (cases "exec_stmt self x s")
  from "5.IH"(1) [OF x "5.prems"(2)] ex
  obtain l1 where sc1: "scopes_stmt ar x (next_ref s) = (l1, r1, next_ref s1)"
    and run1: "run_ok outer s l1 s1" and cur1: "current_span s1 = current_span s"
    by auto
  show ?case
  proof (cases r1)
    case None
    have d: "describes outer ar (current_span s1)"
      using cur1 "5.prems"(2) by simp
    obtain r2 s2 where ex2: "exec_block self xs s1 = (r2, s2)"
      by (cases "exec_block self xs s1")
    from "5.IH"(2) [OF ex [symmetric] None xs d] ex2
    obtain l2 where sc2: "scopes_block ar xs (next_ref s1) = (l2, r2, next_ref s2)"
      and run2: "run_ok outer s1 l2 s2" and cur2: "current_span s2 = current_span s1"
      by auto
    have res: "exec_block self (x # xs) s = (r2, s2)"
      using ex ex2 None by simp
    have "scopes_block ar (x # xs) (next_ref s) = (l1 @ l2, r2, next_ref s2)"
      using sc1 sc2 None by simp
    moreover have "run_ok outer s (l1 @ l2) s2"
      using run1 run2 by (rule run_ok_trans)
    ultimately show ?thesis
      using res cur1 cur2 by simp
  next
    case (Some e)
    have res: "exec_block self (x # xs) s = (Some e, s1)"
      using ex Some by simp
    have "scopes_block ar (x # xs) (next_ref s) = (l1, Some e, next_ref s1)"
      using sc1 Some by simp
    with res run1 cur1 show ?thesis
      by simp
  qed
qed

subsection \<open>Nested scopes are last in, first out\<close>

text \<open>
  C2. For every program of nested scopes whose calls all resolve their parent in the
  current context, and every state: the run ends as the program text says; it starts
  exactly the native spans of the scopes entered, in order; each of them has recorded
  the span that was active where its scope stands (for a scope inside another, the
  native span of that scope; for a scope at the top, the parent expected for the span
  that was active before the program); the active span after the run is the one from
  before, whether the program ends normally or with an exception; and no parent
  recorded before the run is changed.
\<close>

theorem nested_scopes_lifo:
  assumes "all_in_current_context prog"
  shows "(case exec_block self prog s of
            (r, s') \<Rightarrow>
              (case scopes_block Top prog (next_ref s) of
                 (l, r', n') \<Rightarrow>
                   r' = r \<and> n' = next_ref s' \<and>
                   map fst l = [next_ref s..<next_ref s'] \<and>
                   list_all (recorded_parent_ok (current_span s) s') l \<and>
                   current_span s' = current_span s \<and>
                   parents_kept s s'))"
proof -
  have d: "describes (current_span s) Top (current_span s)"
    by simp
  obtain r s' where ex: "exec_block self prog s = (r, s')"
    by (cases "exec_block self prog s")
  from exec_block_scopes [OF assms d, of self] ex
  obtain l where sc: "scopes_block Top prog (next_ref s) = (l, r, next_ref s')"
    and run: "run_ok (current_span s) s l s'" and cur: "current_span s' = current_span s"
    by auto
  from run have "parents_kept s s'" "map fst l = [next_ref s..<next_ref s']"
    "list_all (recorded_parent_ok (current_span s) s') l"
    by (simp_all add: run_ok_def)
  with ex sc cur show ?thesis
    by simp
qed

lemma nested_example_scopes:
  "scopes_block Top nested_example 0 =
     ([(0, Top), (1, Inside 0), (2, Inside 0), (3, Top)], None, 4)"
  by (simp add: nested_example_def)

theorem nested_scopes_lifo_witness:
  "all_in_current_context nested_example \<and>
   scopes_block Top nested_example (next_ref world0) =
     ([(0, Top), (1, Inside 0), (2, Inside 0), (3, Top)], None, 4) \<and>
   fst (exec_block tracer0 nested_example world0) = None \<and>
   next_ref (snd (exec_block tracer0 nested_example world0)) = 4 \<and>
   map (\<lambda>i. sp_parent (dd_spans (snd (exec_block tracer0 nested_example world0)) i))
     [0, 1, 2, 3] = [PyNone, DDSpan 0, DDSpan 0, PyNone] \<and>
   current_span (snd (exec_block tracer0 nested_example world0)) = INVALID_SPAN"
proof -
  have h: "all_in_current_context nested_example"
    by (simp add: nested_example_def default_args_def)
  have w: "next_ref world0 = 0" "current_span world0 = INVALID_SPAN"
    by (simp_all add: world0_def)
  obtain r s' where ex: "exec_block tracer0 nested_example world0 = (r, s')"
    by (cases "exec_block tracer0 nested_example world0")
  from nested_scopes_lifo [OF h, where self = tracer0 and s = world0] ex w nested_example_scopes
  have "r = None" "next_ref s' = 4" "current_span s' = INVALID_SPAN"
    "list_all (recorded_parent_ok INVALID_SPAN s') [(0, Top), (1, Inside 0), (2, Inside 0), (3, Top)]"
    by simp_all
  with h w ex nested_example_scopes show ?thesis
    by simp
qed

end
